theory Spec2Isabelle
  imports Main
begin

section \<open>Data model\<close>

text \<open>
  The session store declares
  \<^verbatim>\<open>onboardingStatus?: 'pending' | 'started' | 'kyc_pending' | 'kyc_processing' | 'kyc_rejected' | 'completed'\<close>
  and \<^verbatim>\<open>hasPasscode?: boolean\<close> on \<^verbatim>\<open>User\<close>: both fields are optional, so each is an
  option here. The other fields of \<^verbatim>\<open>User\<close> (id, email, ...) are never read by the
  routing helpers and are left out.
\<close>

datatype OnboardingStatus =
  Pending | Started | KycPending | KycProcessing | KycRejected | Completed

fun status_literal :: "OnboardingStatus \<Rightarrow> string" where
  "status_literal Pending = ''pending''"
| "status_literal Started = ''started''"
| "status_literal KycPending = ''kyc_pending''"
| "status_literal KycProcessing = ''kyc_processing''"
| "status_literal KycRejected = ''kyc_rejected''"
| "status_literal Completed = ''completed''"

record User =
  user_onboardingStatus :: "OnboardingStatus option"
  hasPasscode :: "bool option"

text \<open>
  \<^verbatim>\<open>AuthState\<close> as the hook \<^verbatim>\<open>useProtectedRoute\<close> builds it from the store:
  \<^verbatim>\<open>user: User | null\<close>, \<^verbatim>\<open>isAuthenticated: boolean\<close>, \<^verbatim>\<open>accessToken: string | null\<close>,
  \<^verbatim>\<open>onboardingStatus: string | null\<close>, \<^verbatim>\<open>pendingVerificationEmail: string | null\<close>.
\<close>

record AuthState =
  user :: "User option"
  isAuthenticated :: bool
  accessToken :: "string option"
  onboardingStatus :: "string option"
  pendingVerificationEmail :: "string option"

text \<open>The store's logged-out default \<^verbatim>\<open>initialState\<close>, on the fields the hook reads.\<close>

abbreviation initialState :: AuthState where
  "initialState \<equiv> \<lparr> user = None, isAuthenticated = False, accessToken = None,
     onboardingStatus = None, pendingVerificationEmail = None \<rparr>"

record RouteConfig =
  inAuthGroup :: bool
  inTabsGroup :: bool
  isOnWelcomeScreen :: bool
  isOnLoginPasscode :: bool
  isOnVerifyEmail :: bool
  isOnCreatePasscode :: bool
  isOnConfirmPasscode :: bool

subsection \<open>Truthiness of the host language\<close>

text \<open>
  The helpers test values with \<^verbatim>\<open>if (x)\<close>, \<^verbatim>\<open>!x\<close>, \<^verbatim>\<open>&&\<close> and \<^verbatim>\<open>||\<close>. A string is truthy
  when it is neither null nor empty, an object when it is not null, an optional boolean
  when it is \<^verbatim>\<open>true\<close>.
\<close>

definition truthy_string :: "string option \<Rightarrow> bool" where
  "truthy_string v = (case v of None \<Rightarrow> False | Some s \<Rightarrow> s \<noteq> [])"

definition truthy_object :: "'a option \<Rightarrow> bool" where
  "truthy_object v = (case v of None \<Rightarrow> False | Some _ \<Rightarrow> True)"

definition truthy_bool :: "bool option \<Rightarrow> bool" where
  "truthy_bool v = (case v of None \<Rightarrow> False | Some b \<Rightarrow> b)"

section \<open>Route config builder\<close>

text \<open>
  \<^verbatim>\<open>segments[0] === tag\<close>: reading index 0 of an empty array gives \<^verbatim>\<open>undefined\<close>, which is
  equal to no string.
\<close>

definition first_segment_is :: "string list \<Rightarrow> string \<Rightarrow> bool" where
  "first_segment_is segments tag = (case segments of [] \<Rightarrow> False | s # _ \<Rightarrow> s = tag)"

definition buildRouteConfig :: "string list \<Rightarrow> string \<Rightarrow> RouteConfig" where
  "buildRouteConfig segments pathname =
     \<lparr> inAuthGroup = first_segment_is segments ''(auth)'',
       inTabsGroup = first_segment_is segments ''(tabs)'',
       isOnWelcomeScreen = (pathname = ''/''),
       isOnLoginPasscode = (pathname = ''/(auth)/login-passcode''),
       isOnVerifyEmail = (pathname = ''/(auth)/verify-email''),
       isOnCreatePasscode = (pathname = ''/(auth)/create-passcode''),
       isOnConfirmPasscode = (pathname = ''/(auth)/confirm-passcode'') \<rparr>"

section \<open>Route decision engine\<close>

definition isInCriticalAuthFlow :: "RouteConfig \<Rightarrow> bool" where
  "isInCriticalAuthFlow config =
     (isOnLoginPasscode config \<or> isOnVerifyEmail config \<or>
      isOnCreatePasscode config \<or> isOnConfirmPasscode config)"

text \<open>
  \<^verbatim>\<open>user?.onboardingStatus || onboardingStatus\<close>: the user's own status when the user is
  there and carries one (every literal of the enumeration is a non-empty string, hence
  truthy), the store-level field otherwise.
\<close>

definition userOnboardingStatus :: "AuthState \<Rightarrow> string option" where
  "userOnboardingStatus authState =
     (case user authState of
        None \<Rightarrow> onboardingStatus authState
      | Some u \<Rightarrow>
          (case user_onboardingStatus u of
             None \<Rightarrow> onboardingStatus authState
           | Some st \<Rightarrow> Some (status_literal st)))"

definition handleAuthenticatedUser :: "AuthState \<Rightarrow> RouteConfig \<Rightarrow> string option" where
  "handleAuthenticatedUser authState config =
     (if isInCriticalAuthFlow config then None
      else if userOnboardingStatus authState = Some ''completed'' \<and> inTabsGroup config then None
      else if \<not> inTabsGroup config then Some ''/(tabs)''
      else None)"

text \<open>\<^verbatim>\<open>user?.hasPasscode\<close>: undefined when the user or the field is missing.\<close>

definition userHasPasscode :: "AuthState \<Rightarrow> bool option" where
  "userHasPasscode authState =
     (case user authState of None \<Rightarrow> None | Some u \<Rightarrow> hasPasscode u)"

definition handleStoredCredentials :: "AuthState \<Rightarrow> RouteConfig \<Rightarrow> string option" where
  "handleStoredCredentials authState config =
     (if inAuthGroup config then None
      else if truthy_bool (userHasPasscode authState) \<and> \<not> isOnLoginPasscode config
        then Some ''/(auth)/login-passcode''
      else if \<not> truthy_bool (userHasPasscode authState) \<and> \<not> isOnWelcomeScreen config
        then Some ''/(auth)/signin''
      else None)"

definition handleEmailVerification :: "RouteConfig \<Rightarrow> string option" where
  "handleEmailVerification config =
     (if isOnVerifyEmail config then None
      else if \<not> isOnVerifyEmail config \<and> \<not> isOnWelcomeScreen config
        then Some ''/(auth)/verify-email''
      else None)"

definition handleGuestUser :: "bool \<Rightarrow> RouteConfig \<Rightarrow> string option" where
  "handleGuestUser hasSeenWelcome config =
     (if hasSeenWelcome \<and> inAuthGroup config then None
      else if \<not> hasSeenWelcome \<and> \<not> isOnWelcomeScreen config then Some ''/''
      else if inTabsGroup config \<or> (\<not> inAuthGroup config \<and> \<not> isOnWelcomeScreen config)
        then Some ''/''
      else None)"

definition determineRoute :: "AuthState \<Rightarrow> RouteConfig \<Rightarrow> bool \<Rightarrow> string option" where
  "determineRoute authState config hasSeenWelcome =
     (if isAuthenticated authState \<and> truthy_object (user authState)
           \<and> truthy_string (accessToken authState)
        then handleAuthenticatedUser authState config
      else if \<not> isAuthenticated authState \<and> truthy_object (user authState)
        then handleStoredCredentials authState config
      else if \<not> isAuthenticated authState \<and> \<not> truthy_object (user authState)
           \<and> truthy_string (pendingVerificationEmail authState)
        then handleEmailVerification config
      else if \<not> isAuthenticated authState \<and> \<not> truthy_object (user authState)
        then handleGuestUser hasSeenWelcome config
      else None)"

section \<open>Navigation effect\<close>

text \<open>
  The state the routing effect of \<^verbatim>\<open>useProtectedRoute\<close> reads on each run: the session
  snapshot taken from the store, the location (\<^verbatim>\<open>useSegments\<close>, \<^verbatim>\<open>usePathname\<close>), the two
  \<^verbatim>\<open>useState\<close> cells \<^verbatim>\<open>hasSeenWelcome\<close> and \<^verbatim>\<open>isReady\<close>, and the latch
  \<^verbatim>\<open>hasNavigatedRef.current\<close>.
\<close>

record HookState =
  authState :: AuthState
  segments :: "string list"
  pathname :: string
  hasSeenWelcome :: bool
  isReady :: bool
  hasNavigatedRef :: bool

text \<open>
  One run of the routing effect: the state after it and the \<^verbatim>\<open>router.replace\<close> command it
  issues, if any. \<^verbatim>\<open>if (targetRoute)\<close> is a truthiness test.
\<close>

definition routing_effect :: "HookState \<Rightarrow> HookState \<times> string option" where
  "routing_effect st =
     (if \<not> isReady st \<or> hasNavigatedRef st then (st, None)
      else
        let config = buildRouteConfig (segments st) (pathname st);
            targetRoute = determineRoute (authState st) config (hasSeenWelcome st)
        in if truthy_string targetRoute
           then (st\<lparr> hasNavigatedRef := True \<rparr>, targetRoute)
           else (st, None))"

text \<open>
  What can change between two runs of the effect. The first three are the writes of
  \<^verbatim>\<open>initializeApp\<close>: \<^verbatim>\<open>setHasSeenWelcome(welcomed)\<close>, the store's \<^verbatim>\<open>reset()\<close> after a failed
  token validation, and \<^verbatim>\<open>setIsReady(true)\<close> in its \<^verbatim>\<open>finally\<close>. The other two are the
  surroundings: any change of the five store fields, and any change of location.
\<close>

datatype Event =
    WelcomeStatusRead bool
  | SessionReset
  | InitFinished
  | StoreChanged AuthState
  | LocationChanged "string list" string

fun apply_event :: "Event \<Rightarrow> HookState \<Rightarrow> HookState" where
  "apply_event (WelcomeStatusRead welcomed) st = st\<lparr> hasSeenWelcome := welcomed \<rparr>"
| "apply_event SessionReset st =
     st\<lparr> authState := initialState \<rparr>"
| "apply_event InitFinished st = st\<lparr> isReady := True \<rparr>"
| "apply_event (StoreChanged a) st = st\<lparr> authState := a \<rparr>"
| "apply_event (LocationChanged segs path) st = st\<lparr> segments := segs, pathname := path \<rparr>"

text \<open>
  A step is one committed render. The effect does not run after each single change: it
  runs once after a render, and that render carries every change made since the previous
  one (a store write and a navigation in the same tick arrive together). So a step takes
  the list of changes of one render, applies them in order, and then runs the effect
  once on the resulting state; the states in between are never seen by the effect. The
  list may hold one change, several, or none (a render whose dependencies did not move;
  letting the effect run there only adds traces). No order is imposed on the changes or
  on how they are grouped into renders.
\<close>

definition step :: "HookState \<Rightarrow> Event list \<Rightarrow> HookState \<times> string option" where
  "step st changes = routing_effect (fold apply_event changes st)"

fun issued :: "string option \<Rightarrow> string list" where
  "issued None = []"
| "issued (Some target) = [target]"

fun run :: "HookState \<Rightarrow> Event list list \<Rightarrow> HookState \<times> string list" where
  "run st [] = (st, [])"
| "run st (changes # renders) =
     (case step st changes of (st', cmd) \<Rightarrow>
        (case run st' renders of (st'', cmds) \<Rightarrow> (st'', issued cmd @ cmds)))"

text \<open>
  A fresh mount: \<^verbatim>\<open>useState(false)\<close> twice, \<^verbatim>\<open>useRef(false)\<close>, and the first run of the
  effect after the first render; then the renders that follow.
\<close>

definition fresh :: "AuthState \<Rightarrow> string list \<Rightarrow> string \<Rightarrow> HookState" where
  "fresh a segs path =
     \<lparr> authState = a, segments = segs, pathname = path,
       hasSeenWelcome = False, isReady = False, hasNavigatedRef = False \<rparr>"

definition mount ::
  "AuthState \<Rightarrow> string list \<Rightarrow> string \<Rightarrow> Event list list \<Rightarrow> HookState \<times> string list" where
  "mount a segs path renders =
     (case routing_effect (fresh a segs path) of (st, cmd) \<Rightarrow>
        (case run st renders of (st', cmds) \<Rightarrow> (st', issued cmd @ cmds)))"

section \<open>Sample inputs\<close>

text \<open>
  \<open>elsewhere\<close> is the config of a location that is in neither group and on none of the
  named screens, for example \<open>buildRouteConfig [''settings''] ''/settings''\<close>.
\<close>

abbreviation elsewhere :: RouteConfig where
  "elsewhere \<equiv> \<lparr> inAuthGroup = False, inTabsGroup = False, isOnWelcomeScreen = False,
     isOnLoginPasscode = False, isOnVerifyEmail = False, isOnCreatePasscode = False,
     isOnConfirmPasscode = False \<rparr>"

section \<open>Properties of the decision engine\<close>

text \<open>
  C1 (critical-flow protection). When \<open>isAuthenticated\<close>, \<open>user\<close> and \<open>accessToken\<close> are
  all truthy and the location is one of the four critical screens (login-passcode,
  verify-email, create-passcode, confirm-passcode), the engine answers "stay", whatever
  the onboarding status, the tabs-group flag and the welcome flag are.
\<close>

theorem critical_flow_protection:
  assumes "isAuthenticated session"
      and "truthy_object (user session)"
      and "truthy_string (accessToken session)"
      and "isOnLoginPasscode config \<or> isOnVerifyEmail config
           \<or> isOnCreatePasscode config \<or> isOnConfirmPasscode config"
  shows "determineRoute session config seen = None"
  using assms
  by (simp add: determineRoute_def handleAuthenticatedUser_def isInCriticalAuthFlow_def)

theorem critical_flow_protection_witness:
  "isAuthenticated
     (initialState\<lparr> isAuthenticated := True, accessToken := Some ''abc'',
        user := Some \<lparr> user_onboardingStatus = Some Started, hasPasscode = Some True \<rparr> \<rparr>)
   \<and> isOnVerifyEmail (elsewhere\<lparr> inAuthGroup := True, isOnVerifyEmail := True \<rparr>)
   \<and> determineRoute
       (initialState\<lparr> isAuthenticated := True, accessToken := Some ''abc'',
          user := Some \<lparr> user_onboardingStatus = Some Started, hasPasscode = Some True \<rparr> \<rparr>)
       (elsewhere\<lparr> inAuthGroup := True, isOnVerifyEmail := True \<rparr>)
       False = None"
  using critical_flow_protection
    [of "initialState\<lparr> isAuthenticated := True, accessToken := Some ''abc'',
           user := Some \<lparr> user_onboardingStatus = Some Started, hasPasscode = Some True \<rparr> \<rparr>"
        "elsewhere\<lparr> inAuthGroup := True, isOnVerifyEmail := True \<rparr>"
        False]
  by (simp add: truthy_object_def truthy_string_def)

text \<open>
  C2 (totality). For every session snapshot, route config and welcome flag the engine
  returns either nothing or a non-empty target string. The embedding is a total function
  with no error branch: no read in the source can throw (\<^verbatim>\<open>user?.\<close> guards the only
  field reads on a value that may be null).
\<close>

theorem determineRoute_total:
  "determineRoute session config seen = None
   \<or> (\<exists>target. determineRoute session config seen = Some target \<and> target \<noteq> [])"
  by (simp add: determineRoute_def handleAuthenticatedUser_def handleStoredCredentials_def
      handleEmailVerification_def handleGuestUser_def)

text \<open>
  C3 (malformed-session fallthrough). A session with \<open>isAuthenticated = true\<close> whose user
  or whose access token is missing (more generally: falsy) matches none of the four
  branches, and the engine returns nothing, for every route config and welcome flag.
\<close>

theorem malformed_session_fallthrough:
  assumes "isAuthenticated session"
      and "\<not> truthy_object (user session) \<or> \<not> truthy_string (accessToken session)"
  shows "determineRoute session config seen = None"
  using assms by (auto simp add: determineRoute_def)

theorem malformed_session_fallthrough_witness:
  "isAuthenticated (initialState\<lparr> isAuthenticated := True, accessToken := None,
       user := Some \<lparr> user_onboardingStatus = Some Completed, hasPasscode = Some True \<rparr> \<rparr>)
   \<and> accessToken (initialState\<lparr> isAuthenticated := True, accessToken := None,
       user := Some \<lparr> user_onboardingStatus = Some Completed, hasPasscode = Some True \<rparr> \<rparr>) = None
   \<and> determineRoute
       (initialState\<lparr> isAuthenticated := True, accessToken := None,
          user := Some \<lparr> user_onboardingStatus = Some Completed, hasPasscode = Some True \<rparr> \<rparr>)
       elsewhere True = None"
  using malformed_session_fallthrough
    [of "initialState\<lparr> isAuthenticated := True, accessToken := None,
           user := Some \<lparr> user_onboardingStatus = Some Completed, hasPasscode = Some True \<rparr> \<rparr>"
        elsewhere True]
  by (simp add: truthy_string_def)

text \<open>
  C4 (guest branch). With \<open>isAuthenticated = false\<close>, no user and no pending verification
  email (absent, or empty: the source tests it for truthiness), the result is:
  (i) nothing when the welcome was seen and the location is in the auth group;
  (ii) else the root path \<open>/\<close> when the welcome was not seen and the location is not the
  welcome screen; (iii) else \<open>/\<close> when the location is in the tabs group, or is neither in
  the auth group nor the welcome screen; (iv) nothing otherwise.
\<close>

theorem guest_branch:
  assumes "\<not> isAuthenticated session"
      and "user session = None"
      and "\<not> truthy_string (pendingVerificationEmail session)"
  shows "determineRoute session config seen =
     (if seen \<and> inAuthGroup config then None
      else if \<not> seen \<and> \<not> isOnWelcomeScreen config then Some ''/''
      else if inTabsGroup config \<or> (\<not> inAuthGroup config \<and> \<not> isOnWelcomeScreen config)
        then Some ''/''
      else None)"
  using assms by (simp add: determineRoute_def handleGuestUser_def truthy_object_def)

theorem guest_branch_witness:
  "\<not> isAuthenticated initialState \<and> user initialState = None
   \<and> pendingVerificationEmail initialState = None
   \<and> determineRoute initialState elsewhere False = Some ''/''
   \<and> determineRoute initialState (elsewhere\<lparr> inAuthGroup := True \<rparr>) True = None
   \<and> determineRoute initialState (elsewhere\<lparr> inTabsGroup := True \<rparr>) True = Some ''/''
   \<and> determineRoute initialState (elsewhere\<lparr> isOnWelcomeScreen := True \<rparr>) False = None"
  using guest_branch [of initialState elsewhere False]
    guest_branch [of initialState "elsewhere\<lparr> inAuthGroup := True \<rparr>" True]
    guest_branch [of initialState "elsewhere\<lparr> inTabsGroup := True \<rparr>" True]
    guest_branch [of initialState "elsewhere\<lparr> isOnWelcomeScreen := True \<rparr>" False]
  by (simp add: truthy_string_def)

text \<open>
  C5 (stored-credentials branch), as amended. With \<open>isAuthenticated = false\<close> and a user
  present, the result is: (i) nothing in the auth group; (ii) else the login-passcode
  path when \<open>user.hasPasscode\<close> is true and the location is not the login-passcode screen;
  (iii) else the sign-in path when \<open>user.hasPasscode\<close> is false or absent and the location
  is not the welcome screen; (iv) nothing otherwise. In particular a returning user
  (passcode set, outside the auth group, not on login-passcode) is sent to login-passcode.
\<close>

theorem stored_credentials_branch:
  assumes "\<not> isAuthenticated session"
      and "user session = Some u"
  shows "determineRoute session config seen =
     (if inAuthGroup config then None
      else if hasPasscode u = Some True \<and> \<not> isOnLoginPasscode config
        then Some ''/(auth)/login-passcode''
      else if hasPasscode u \<noteq> Some True \<and> \<not> isOnWelcomeScreen config
        then Some ''/(auth)/signin''
      else None)"
  using assms
  by (cases "hasPasscode u")
     (simp_all add: determineRoute_def handleStoredCredentials_def userHasPasscode_def
        truthy_object_def truthy_bool_def)

theorem stored_credentials_branch_witness:
  "\<not> isAuthenticated
       (initialState\<lparr> user := Some \<lparr> user_onboardingStatus = None, hasPasscode = Some True \<rparr> \<rparr>)
   \<and> determineRoute
        (initialState\<lparr> user := Some \<lparr> user_onboardingStatus = None, hasPasscode = Some True \<rparr> \<rparr>)
        elsewhere False = Some ''/(auth)/login-passcode''
   \<and> determineRoute
        (initialState\<lparr> user := Some \<lparr> user_onboardingStatus = None, hasPasscode = Some False \<rparr> \<rparr>)
        elsewhere False = Some ''/(auth)/signin''
   \<and> determineRoute
        (initialState\<lparr> user := Some \<lparr> user_onboardingStatus = None, hasPasscode = Some True \<rparr> \<rparr>)
        (elsewhere\<lparr> inAuthGroup := True \<rparr>) False = None"
  using
    stored_credentials_branch
      [of "initialState\<lparr> user := Some \<lparr> user_onboardingStatus = None, hasPasscode = Some True \<rparr> \<rparr>"
          "\<lparr> user_onboardingStatus = None, hasPasscode = Some True \<rparr>" elsewhere False]
    stored_credentials_branch
      [of "initialState\<lparr> user := Some \<lparr> user_onboardingStatus = None, hasPasscode = Some False \<rparr> \<rparr>"
          "\<lparr> user_onboardingStatus = None, hasPasscode = Some False \<rparr>" elsewhere False]
    stored_credentials_branch
      [of "initialState\<lparr> user := Some \<lparr> user_onboardingStatus = None, hasPasscode = Some True \<rparr> \<rparr>"
          "\<lparr> user_onboardingStatus = None, hasPasscode = Some True \<rparr>"
          "elsewhere\<lparr> inAuthGroup := True \<rparr>" False]
  by simp

text \<open>
  C5 as stated fails for a cached user that carries no \<open>hasPasscode\<close> field (the field is
  optional in the store's \<open>User\<close>). Outside the auth group and off the welcome screen,
  \<open>hasPasscode\<close> is neither true nor false there, so the claim's case (iv) promises
  "nothing"; the source tests \<^verbatim>\<open>!userHasPasscode\<close> and redirects to sign-in.
\<close>

theorem stored_credentials_counterexample:
  "\<not> isAuthenticated
       (initialState\<lparr> user := Some \<lparr> user_onboardingStatus = None, hasPasscode = None \<rparr> \<rparr>)
   \<and> user (initialState\<lparr> user := Some \<lparr> user_onboardingStatus = None, hasPasscode = None \<rparr> \<rparr>)
       = Some \<lparr> user_onboardingStatus = None, hasPasscode = None \<rparr>
   \<and> \<not> inAuthGroup elsewhere
   \<and> hasPasscode \<lparr> user_onboardingStatus = None, hasPasscode = None \<rparr> \<noteq> Some True
   \<and> hasPasscode \<lparr> user_onboardingStatus = None, hasPasscode = None \<rparr> \<noteq> Some False
   \<and> determineRoute
        (initialState\<lparr> user := Some \<lparr> user_onboardingStatus = None, hasPasscode = None \<rparr> \<rparr>)
        elsewhere False = Some ''/(auth)/signin''"
  by (simp add: determineRoute_def handleStoredCredentials_def userHasPasscode_def
        truthy_object_def truthy_bool_def)

text \<open>
  C6 (pending-verification branch). With \<open>isAuthenticated = false\<close>, no user and a
  pending verification email present (the branch tests the field for truthiness, and an
  empty string is no pending email): on the verify-email screen the result is nothing;
  off the verify-email screen and off the welcome screen it is the verify-email path; on
  the welcome screen it is nothing, so a user on the welcome screen is never redirected
  toward verification.
\<close>

theorem pending_verification_branch:
  assumes "\<not> isAuthenticated session"
      and "user session = None"
      and "truthy_string (pendingVerificationEmail session)"
  shows "determineRoute session config seen =
     (if isOnVerifyEmail config then None
      else if \<not> isOnWelcomeScreen config then Some ''/(auth)/verify-email''
      else None)"
  using assms
  by (simp add: determineRoute_def handleEmailVerification_def truthy_object_def)

theorem pending_verification_branch_witness:
  "\<not> isAuthenticated (initialState\<lparr> pendingVerificationEmail := Some ''a@b.com'' \<rparr>)
   \<and> user (initialState\<lparr> pendingVerificationEmail := Some ''a@b.com'' \<rparr>) = None
   \<and> truthy_string
        (pendingVerificationEmail (initialState\<lparr> pendingVerificationEmail := Some ''a@b.com'' \<rparr>))
   \<and> determineRoute (initialState\<lparr> pendingVerificationEmail := Some ''a@b.com'' \<rparr>)
        elsewhere False = Some ''/(auth)/verify-email''
   \<and> determineRoute (initialState\<lparr> pendingVerificationEmail := Some ''a@b.com'' \<rparr>)
        (elsewhere\<lparr> isOnWelcomeScreen := True \<rparr>) False = None
   \<and> determineRoute (initialState\<lparr> pendingVerificationEmail := Some ''a@b.com'' \<rparr>)
        (elsewhere\<lparr> inAuthGroup := True, isOnVerifyEmail := True \<rparr>) False = None"
  using
    pending_verification_branch
      [of "initialState\<lparr> pendingVerificationEmail := Some ''a@b.com'' \<rparr>" elsewhere False]
    pending_verification_branch
      [of "initialState\<lparr> pendingVerificationEmail := Some ''a@b.com'' \<rparr>"
          "elsewhere\<lparr> isOnWelcomeScreen := True \<rparr>" False]
    pending_verification_branch
      [of "initialState\<lparr> pendingVerificationEmail := Some ''a@b.com'' \<rparr>"
          "elsewhere\<lparr> inAuthGroup := True, isOnVerifyEmail := True \<rparr>" False]
  by (simp add: truthy_string_def)

text \<open>
  C9 (welcome-flag noninterference). When \<open>isAuthenticated\<close> is true, or a user is
  present, or a pending verification email is present (truthy, as the dispatch tests it),
  the welcome flag has no influence: the engine returns the same result for \<open>true\<close> and
  for \<open>false\<close>. The flag can matter only in the guest state (no session, no user, no
  pending email).
\<close>

theorem welcome_flag_noninterference:
  assumes "isAuthenticated session \<or> user session \<noteq> None
           \<or> truthy_string (pendingVerificationEmail session)"
  shows "determineRoute session config True = determineRoute session config False"
  using assms
  by (auto simp add: determineRoute_def truthy_object_def split: option.splits)

theorem welcome_flag_noninterference_witness:
  "truthy_string
     (pendingVerificationEmail (initialState\<lparr> pendingVerificationEmail := Some ''a@b.com'' \<rparr>))
   \<and> determineRoute (initialState\<lparr> pendingVerificationEmail := Some ''a@b.com'' \<rparr>)
        (elsewhere\<lparr> inAuthGroup := True \<rparr>) True
     = determineRoute (initialState\<lparr> pendingVerificationEmail := Some ''a@b.com'' \<rparr>)
        (elsewhere\<lparr> inAuthGroup := True \<rparr>) False
   \<and> determineRoute (initialState\<lparr> pendingVerificationEmail := Some ''a@b.com'' \<rparr>)
        (elsewhere\<lparr> inAuthGroup := True \<rparr>) False = Some ''/(auth)/verify-email''"
  using welcome_flag_noninterference
      [of "initialState\<lparr> pendingVerificationEmail := Some ''a@b.com'' \<rparr>"
          "elsewhere\<lparr> inAuthGroup := True \<rparr>"]
  by (simp add: truthy_string_def determineRoute_def handleEmailVerification_def
        truthy_object_def)

lemma determineRoute_range_attained:
  "determineRoute initialState elsewhere False = Some ''/''"
  "determineRoute
     (initialState\<lparr> isAuthenticated := True, accessToken := Some ''abc'',
        user := Some \<lparr> user_onboardingStatus = Some Started, hasPasscode = Some True \<rparr> \<rparr>)
     elsewhere False = Some ''/(tabs)''"
  "determineRoute
     (initialState\<lparr> user := Some \<lparr> user_onboardingStatus = None, hasPasscode = Some True \<rparr> \<rparr>)
     elsewhere False = Some ''/(auth)/login-passcode''"
  "determineRoute
     (initialState\<lparr> user := Some \<lparr> user_onboardingStatus = None, hasPasscode = Some False \<rparr> \<rparr>)
     elsewhere False = Some ''/(auth)/signin''"
  "determineRoute (initialState\<lparr> pendingVerificationEmail := Some ''a@b.com'' \<rparr>)
     elsewhere False = Some ''/(auth)/verify-email''"
  by (simp_all add: determineRoute_def handleAuthenticatedUser_def handleStoredCredentials_def
        handleEmailVerification_def handleGuestUser_def isInCriticalAuthFlow_def
        userOnboardingStatus_def userHasPasscode_def truthy_object_def truthy_string_def
        truthy_bool_def)

text \<open>
  C10 (closed output range). Whenever the engine returns a target, the target is one of
  the five literal paths \<open>/\<close>, \<open>/(tabs)\<close>, \<open>/(auth)/login-passcode\<close>, \<open>/(auth)/signin\<close> and
  \<open>/(auth)/verify-email\<close>; no other destination can be produced. (Each of the five is
  produced on some input, as the lemma above shows.)
\<close>

theorem determineRoute_range:
  assumes "determineRoute session config seen = Some target"
  shows "target \<in> {''/'', ''/(tabs)'', ''/(auth)/login-passcode'', ''/(auth)/signin'',
                   ''/(auth)/verify-email''}"
  using assms
  by (auto simp add: determineRoute_def handleAuthenticatedUser_def handleStoredCredentials_def
        handleEmailVerification_def handleGuestUser_def split: if_splits)

theorem determineRoute_range_witness:
  "determineRoute
     (initialState\<lparr> isAuthenticated := True, accessToken := Some ''abc'',
        user := Some \<lparr> user_onboardingStatus = Some Started, hasPasscode = Some True \<rparr> \<rparr>)
     elsewhere False = Some ''/(tabs)''
   \<and> ''/(tabs)'' \<in> {''/'', ''/(tabs)'', ''/(auth)/login-passcode'', ''/(auth)/signin'',
                      ''/(auth)/verify-email''}"
proof -
  have r: "determineRoute
     (initialState\<lparr> isAuthenticated := True, accessToken := Some ''abc'',
        user := Some \<lparr> user_onboardingStatus = Some Started, hasPasscode = Some True \<rparr> \<rparr>)
     elsewhere False = Some ''/(tabs)''"
    by (simp add: determineRoute_def handleAuthenticatedUser_def isInCriticalAuthFlow_def
          truthy_object_def truthy_string_def)
  from r determineRoute_range [OF r] show ?thesis by (rule conjI)
qed

section \<open>Properties of the route config builder\<close>

lemma first_segment_is_iff:
  "first_segment_is segs tag = (\<exists>rest. segs = tag # rest)"
  by (cases segs) (auto simp add: first_segment_is_def)

text \<open>
  C7 (route config builder). For every segment list and path, \<open>buildRouteConfig\<close> returns
  a config (it is a total function with no failure mode) whose flags are decided by exact
  comparison: \<open>inAuthGroup\<close> iff the first segment is \<open>(auth)\<close>, \<open>inTabsGroup\<close> iff it is
  \<open>(tabs)\<close>, \<open>isOnWelcomeScreen\<close> iff the path is exactly \<open>/\<close>, and each critical-screen flag
  iff the path is exactly that screen's path. An empty segment list sets neither group
  flag, and nothing is normalised: a trailing slash, an empty path or a segment without
  its parentheses does not match.
\<close>

theorem buildRouteConfig_exact:
  "inAuthGroup (buildRouteConfig segs path) = (\<exists>rest. segs = ''(auth)'' # rest)
   \<and> inTabsGroup (buildRouteConfig segs path) = (\<exists>rest. segs = ''(tabs)'' # rest)
   \<and> isOnWelcomeScreen (buildRouteConfig segs path) = (path = ''/'')
   \<and> isOnLoginPasscode (buildRouteConfig segs path) = (path = ''/(auth)/login-passcode'')
   \<and> isOnVerifyEmail (buildRouteConfig segs path) = (path = ''/(auth)/verify-email'')
   \<and> isOnCreatePasscode (buildRouteConfig segs path) = (path = ''/(auth)/create-passcode'')
   \<and> isOnConfirmPasscode (buildRouteConfig segs path) = (path = ''/(auth)/confirm-passcode'')
   \<and> \<not> inAuthGroup (buildRouteConfig [] path)
   \<and> \<not> inTabsGroup (buildRouteConfig [] path)
   \<and> \<not> isOnVerifyEmail (buildRouteConfig segs ''/(auth)/verify-email/'')
   \<and> \<not> isOnWelcomeScreen (buildRouteConfig segs '''')
   \<and> \<not> inAuthGroup (buildRouteConfig (''auth'' # others) path)"
  by (simp add: buildRouteConfig_def first_segment_is_iff)

section \<open>Properties of the navigation effect\<close>

lemma routing_effect_not_ready:
  "\<not> isReady st \<Longrightarrow> routing_effect st = (st, None)"
  by (simp add: routing_effect_def)

lemma routing_effect_latched:
  "hasNavigatedRef st \<Longrightarrow> routing_effect st = (st, None)"
  by (simp add: routing_effect_def)

lemma routing_effect_fires:
  "routing_effect st = (st', Some target) \<Longrightarrow> hasNavigatedRef st'"
  by (auto simp add: routing_effect_def Let_def split: if_splits)

lemma apply_event_latch:
  "hasNavigatedRef (apply_event ev st) = hasNavigatedRef st"
  by (cases ev) simp_all

lemma apply_event_ready:
  "ev \<noteq> InitFinished \<Longrightarrow> isReady (apply_event ev st) = isReady st"
  by (cases ev) simp_all

text \<open>No change of a render touches the latch; only \<open>InitFinished\<close> touches \<open>isReady\<close>.\<close>

lemma fold_apply_event_latch:
  "hasNavigatedRef (fold apply_event changes st) = hasNavigatedRef st"
  by (induction changes arbitrary: st) (simp_all add: apply_event_latch)

lemma fold_apply_event_ready:
  "InitFinished \<notin> set changes \<Longrightarrow> isReady (fold apply_event changes st) = isReady st"
  by (induction changes arbitrary: st) (simp_all add: apply_event_ready [OF not_sym])

lemma step_latched:
  "hasNavigatedRef st \<Longrightarrow> step st changes = (fold apply_event changes st, None)"
  by (simp add: step_def routing_effect_latched fold_apply_event_latch)

lemma step_not_ready:
  "\<not> isReady st \<Longrightarrow> InitFinished \<notin> set changes \<Longrightarrow>
   step st changes = (fold apply_event changes st, None)"
  by (simp add: step_def routing_effect_not_ready fold_apply_event_ready)

lemma step_fires:
  "step st changes = (st', Some target) \<Longrightarrow> hasNavigatedRef st'"
  unfolding step_def by (rule routing_effect_fires)

lemma snd_run_Cons:
  "snd (run st (changes # renders)) =
     issued (snd (step st changes)) @ snd (run (fst (step st changes)) renders)"
  by (simp add: case_prod_beta)

lemma fst_run_Cons:
  "fst (run st (changes # renders)) = fst (run (fst (step st changes)) renders)"
  by (simp add: case_prod_beta)

lemma run_latched:
  "hasNavigatedRef st \<Longrightarrow>
   snd (run st renders) = [] \<and> hasNavigatedRef (fst (run st renders))"
proof (induction renders arbitrary: st)
  case Nil
  then show ?case by simp
next
  case (Cons changes renders)
  from Cons.prems have "hasNavigatedRef (fold apply_event changes st)"
    by (simp add: fold_apply_event_latch)
  from Cons.IH [OF this] Cons.prems show ?case
    by (simp only: snd_run_Cons fst_run_Cons step_latched) simp
qed

lemma run_not_ready:
  "\<not> isReady st \<Longrightarrow> InitFinished \<notin> set (concat renders) \<Longrightarrow> snd (run st renders) = []"
proof (induction renders arbitrary: st)
  case Nil
  then show ?case by simp
next
  case (Cons changes renders)
  from Cons.prems have ne: "InitFinished \<notin> set changes"
    and rest: "InitFinished \<notin> set (concat renders)" by auto
  from Cons.prems ne have "\<not> isReady (fold apply_event changes st)"
    by (simp add: fold_apply_event_ready)
  from Cons.IH [OF this rest] Cons.prems ne show ?case
    by (simp add: snd_run_Cons step_not_ready del: run.simps)
qed

lemma run_at_most_one:
  "length (snd (run st renders)) \<le> 1"
proof (induction renders arbitrary: st)
  case Nil
  then show ?case by simp
next
  case (Cons changes renders)
  obtain st' cmd where s: "step st changes = (st', cmd)" by (cases "step st changes")
  show ?case
  proof (cases cmd)
    case None
    with s Cons.IH [of st'] show ?thesis by (simp only: snd_run_Cons) simp
  next
    case (Some target)
    with s have "hasNavigatedRef st'" by (auto dest: step_fires)
    then have "snd (run st' renders) = []" by (simp add: run_latched)
    with s Some show ?thesis by (simp only: snd_run_Cons) simp
  qed
qed

lemma run_append:
  "run st (renders1 @ renders2) =
     (case run st renders1 of (st1, cmds1) \<Rightarrow>
        (case run st1 renders2 of (st2, cmds2) \<Rightarrow> (st2, cmds1 @ cmds2)))"
  by (induction renders1 arbitrary: st) (simp_all add: case_prod_beta)

lemma run_fired_latched:
  "snd (run st renders) \<noteq> [] \<Longrightarrow> hasNavigatedRef (fst (run st renders))"
proof (induction renders arbitrary: st)
  case Nil
  then show ?case by simp
next
  case (Cons changes renders)
  obtain st' cmd where s: "step st changes = (st', cmd)" by (cases "step st changes")
  show ?case
  proof (cases cmd)
    case None
    with s Cons.prems have "snd (run st' renders) \<noteq> []" by (simp only: snd_run_Cons) simp
    from Cons.IH [OF this] s show ?thesis by (simp only: fst_run_Cons) simp
  next
    case (Some target)
    with s have "hasNavigatedRef st'" by (auto dest: step_fires)
    then have "hasNavigatedRef (fst (run st' renders))" by (simp add: run_latched)
    with s show ?thesis by (simp only: fst_run_Cons) simp
  qed
qed

lemma mount_eq_run:
  "mount a segs path renders = run (fresh a segs path) renders"
  by (simp add: mount_def routing_effect_not_ready fresh_def split: prod.splits)

text \<open>
  The effect sees only the state a render ends in: a store change and a location change
  committed in the same render are judged together. Here a signed-in user in the tabs is
  logged out with a pending email and moved to the verify-email screen in one render, and
  nothing is issued; had the effect run between the two changes it would have redirected.
\<close>

lemma step_batches_changes:
  "snd (step
     (fresh (initialState\<lparr> isAuthenticated := True, accessToken := Some ''abc'',
               user := Some \<lparr> user_onboardingStatus = Some Completed, hasPasscode = Some True \<rparr> \<rparr>)
            [''(tabs)''] ''/(tabs)'' \<lparr> isReady := True \<rparr>)
     [StoreChanged (initialState\<lparr> pendingVerificationEmail := Some ''a@b.com'' \<rparr>),
      LocationChanged [''(auth)'', ''verify-email''] ''/(auth)/verify-email'']) = None"
  "snd (step
     (fresh (initialState\<lparr> isAuthenticated := True, accessToken := Some ''abc'',
               user := Some \<lparr> user_onboardingStatus = Some Completed, hasPasscode = Some True \<rparr> \<rparr>)
            [''(tabs)''] ''/(tabs)'' \<lparr> isReady := True \<rparr>)
     [StoreChanged (initialState\<lparr> pendingVerificationEmail := Some ''a@b.com'' \<rparr>)])
   = Some ''/(auth)/verify-email''"
  by (simp_all add: step_def fresh_def routing_effect_def buildRouteConfig_def
        first_segment_is_def determineRoute_def handleEmailVerification_def
        truthy_object_def truthy_string_def)

text \<open>
  C8 (one-shot navigation latch). From a fresh mount, along every sequence of renders,
  each carrying any number of state changes: at most one \<^verbatim>\<open>router.replace\<close> command is
  issued, however many steps are taken; no command is issued while \<open>isReady\<close> has not
  been set (no render so far carries \<open>InitFinished\<close>, and this applies to every prefix of
  a longer trace); and once a command has been issued, no later step issues another: the
  latch stays set, and only a new mount starts from a cleared latch.
\<close>

theorem one_shot_navigation:
  "length (snd (mount a segs path renders)) \<le> 1
   \<and> (InitFinished \<notin> set (concat renders) \<longrightarrow> snd (mount a segs path renders) = [])
   \<and> (snd (mount a segs path renders) \<noteq> [] \<longrightarrow>
        snd (run (fst (mount a segs path renders)) later) = []
        \<and> snd (mount a segs path (renders @ later)) = snd (mount a segs path renders))"
proof (intro conjI impI)
  show "length (snd (mount a segs path renders)) \<le> 1"
    using run_at_most_one [of "fresh a segs path" renders] by (simp only: mount_eq_run)
next
  assume "InitFinished \<notin> set (concat renders)"
  then show "snd (mount a segs path renders) = []"
    by (simp add: mount_eq_run run_not_ready fresh_def)
next
  assume fired: "snd (mount a segs path renders) \<noteq> []"
  then have "hasNavigatedRef (fst (mount a segs path renders))"
    by (simp add: mount_eq_run run_fired_latched)
  then show l: "snd (run (fst (mount a segs path renders)) later) = []"
    by (simp add: run_latched)
  then show "snd (mount a segs path (renders @ later)) = snd (mount a segs path renders)"
    by (simp add: mount_eq_run run_append case_prod_beta)
qed

theorem one_shot_navigation_witness:
  "snd (mount initialState [''(tabs)''] ''/(tabs)''
          [[WelcomeStatusRead True], [InitFinished],
           [StoreChanged (initialState\<lparr> pendingVerificationEmail := Some ''a@b.com'' \<rparr>),
            LocationChanged [''settings''] ''/settings''],
           [LocationChanged [] ''/'']]) = [''/'']
   \<and> snd (mount initialState [''(tabs)''] ''/(tabs)''
          [[WelcomeStatusRead True, LocationChanged [''settings''] ''/settings''], []]) = []
   \<and> snd (mount initialState [''(tabs)''] ''/(tabs)''
          [[WelcomeStatusRead True], [InitFinished]]) = [''/'']
   \<and> snd (run (fst (mount initialState [''(tabs)''] ''/(tabs)''
          [[WelcomeStatusRead True], [InitFinished]]))
          [[StoreChanged (initialState\<lparr> pendingVerificationEmail := Some ''a@b.com'' \<rparr>),
            LocationChanged [''settings''] ''/settings''],
           [LocationChanged [] ''/'']]) = []"
  using one_shot_navigation
      [of initialState "[''(tabs)'']" "''/(tabs)''" "[[WelcomeStatusRead True], [InitFinished]]"
          "[[StoreChanged (initialState\<lparr> pendingVerificationEmail := Some ''a@b.com'' \<rparr>),
             LocationChanged [''settings''] ''/settings''],
            [LocationChanged [] ''/'']]"]
    one_shot_navigation
      [of initialState "[''(tabs)'']" "''/(tabs)''"
          "[[WelcomeStatusRead True, LocationChanged [''settings''] ''/settings''], []]"]
  by (simp add: mount_def fresh_def step_def routing_effect_def buildRouteConfig_def
        first_segment_is_def determineRoute_def handleGuestUser_def truthy_object_def
        truthy_string_def)

end
